theory Spec2Isabelle
  imports Main
begin

section \<open>The Java install dialog (launcher/ui/java/InstallJavaDialog.cpp)\<close>

text \<open>
  The file defines two classes: \<open>InstallLoaderPage\<close>, one page per Java vendor holding two
  \<open>VersionSelectWidget\<close>s, and \<open>Java::InstallDialog\<close>, the dialog that owns a
  \<open>PageContainer\<close> of such pages, a button box and a Refresh button.

  Objects become records, member functions become functions that take the object and
  return it updated, and a pointer to a page is the position of the page in the
  container's list of pages (\<open>None\<close> for \<open>nullptr\<close>). A failed \<open>Q_ASSERT\<close> or the
  dereference of a pointer that names no page is a value of type \<open>error\<close>.

  Classes whose code is in other files (\<open>VersionSelectWidget\<close>, \<open>PageContainer\<close>,
  \<open>Meta::Index\<close>, \<open>Meta::VersionList\<close>, \<open>FS\<close>, \<open>tr\<close>) are parameters: the record
  \<open>Collaborators\<close> holds one function per member function this file calls, over abstract
  types \<open>'w\<close> (the state of a \<open>VersionSelectWidget\<close>), \<open>'l\<close> (a \<open>Meta::VersionList\<close>) and
  \<open>'v\<close> (a \<open>Meta::Version\<close>). Every theorem holds for all of them.

  Signals are delivered one at a time: \<open>deliver\<close> runs the slot this file connects to a
  signal. What a widget emits while one of its member functions runs is the widget's
  business and reaches the dialog as further signals. The connections into Qt's own
  slots (\<open>QDialog::accept\<close> and \<open>QDialog::reject\<close>, lines 108, 157 and 158) end in the
  virtual \<open>done\<close> with \<open>Accepted\<close> or \<open>Rejected\<close>; \<open>done\<close> is modelled for every result code.
  Layouts, icons and object names have no part in the properties below and are left out.
\<close>

subsection \<open>Versions, metadata and version lists\<close>

text \<open>
  Modelled from the spec: the declaration of \<open>Java::DownloadType\<close> is in
  java/JavaMetadata.h, not in this file. The spec speaks of "one of two pre-built
  download-task types based on a metadata flag", and the \<open>switch\<close> of
  \<open>InstallDialog::done\<close> names the two enumerators \<open>Manifest\<close> and \<open>Archive\<close>.
\<close>

datatype DownloadType = Manifest | Archive

text \<open>The fields of \<open>Java::Metadata\<close> that this file reads.\<close>

record Metadata =
  m_name :: string
  url :: string
  checksumType :: string
  checksumHash :: string
  downloadType :: DownloadType

text \<open>
  A \<open>BaseVersion::Ptr\<close> is a shared pointer to an object of some subclass of
  \<open>BaseVersion\<close>; \<open>None\<close> is the null pointer. The file casts such pointers to
  \<open>Meta::Version\<close> and to \<open>Java::Metadata\<close>; \<open>OtherVersion\<close> stands for every other subclass.
\<close>

datatype 'v BaseVersion = MetaVersion 'v | JavaMetadata Metadata | OtherVersion

fun dynamic_pointer_cast_Version :: "'v BaseVersion option \<Rightarrow> 'v option" where
  "dynamic_pointer_cast_Version (Some (MetaVersion v)) = Some v"
| "dynamic_pointer_cast_Version _ = None"

fun dynamic_pointer_cast_Metadata :: "'v BaseVersion option \<Rightarrow> Metadata option" where
  "dynamic_pointer_cast_Metadata (Some (JavaMetadata m)) = Some m"
| "dynamic_pointer_cast_Metadata _ = None"

text \<open>The roles of \<open>BaseVersionList::ModelRoles\<close> that \<open>initialize\<close> names.\<close>

datatype ModelRoles = VersionPointerRole | VersionRole | RecommendedRole

text \<open>
  A \<open>VersionSelectWidget\<close> is initialized with a \<open>BaseVersionList*\<close>: here either a
  \<open>Meta::VersionList\<close> of the metadata index or a \<open>Java::VersionList\<close> constructed from a
  \<open>Meta::Version\<close>.
\<close>

datatype ('l, 'v) BaseVersionList = MetaVersionList 'l | JavaVersionList 'v

subsection \<open>Pages, the page container and the collaborators\<close>

record 'w InstallLoaderPage =
  uid :: string
  iconName :: string
  name :: string
  loaded :: bool
  majorVersionSelect :: 'w
  javaVersionSelect :: 'w

text \<open>
  What this file reads of a \<open>PageContainer\<close>: its pages (\<open>getPages()\<close>; a page pointer is
  a position in this list) and the selected page (\<open>selectedPage()\<close>, a page pointer).
\<close>

record 'w PageContainer =
  pages :: "'w InstallLoaderPage list"
  selectedPage :: "nat option"

record ('w, 'l, 'v) Collaborators =
  tr :: "string \<Rightarrow> string"
  VersionSelectWidget_new :: 'w
  w_setEmptyString :: "string \<Rightarrow> 'w \<Rightarrow> 'w"
  w_setEmptyErrorString :: "string \<Rightarrow> 'w \<Rightarrow> 'w"
  w_initialize :: "('l, 'v) BaseVersionList \<Rightarrow> 'w \<Rightarrow> 'w"
  w_selectCurrent :: "'w \<Rightarrow> 'w"
  w_selectSearch :: "'w \<Rightarrow> 'w"
  w_loadList :: "'w \<Rightarrow> 'w"
  w_selectedVersion :: "'w \<Rightarrow> 'v BaseVersion option"
  setProvidedRoles :: "ModelRoles list \<Rightarrow> 'l \<Rightarrow> 'l"
  metadataIndex_get :: "string \<Rightarrow> 'l option"
  javaPath :: string
  PathCombine :: "string \<Rightarrow> string \<Rightarrow> string"
  PageContainer_new :: "'w InstallLoaderPage list \<Rightarrow> string \<Rightarrow> 'w PageContainer"
  selectPage :: "string \<Rightarrow> 'w PageContainer \<Rightarrow> 'w PageContainer"

subsection \<open>InstallLoaderPage\<close>

text \<open>The constructor (lines 41-63): both widgets are created and configured, \<open>loaded\<close> is false.\<close>

definition InstallLoaderPage_new ::
  "('w, 'l, 'v) Collaborators \<Rightarrow> string \<Rightarrow> string \<Rightarrow> string \<Rightarrow> 'w InstallLoaderPage" where
  "InstallLoaderPage_new E ident icon nm =
     \<lparr> uid = ident, iconName = icon, name = nm, loaded = False,
       majorVersionSelect =
         w_setEmptyErrorString E (tr E ''Couldn't load or download the java version lists!'')
           (w_setEmptyString E (tr E ''No java versions are currently available in the meta.'')
             (w_selectCurrent E (VersionSelectWidget_new E))),
       javaVersionSelect =
         w_setEmptyErrorString E (tr E ''Couldn't load or download the java version lists!'')
           (w_setEmptyString E (tr E ''No java versions are currently available for your OS.'')
             (VersionSelectWidget_new E)) \<rparr>"

definition initialize ::
  "('w, 'l, 'v) Collaborators \<Rightarrow> 'l \<Rightarrow> 'w InstallLoaderPage \<Rightarrow> 'w InstallLoaderPage" where
  "initialize E vlist p =
     (let vlist' = setProvidedRoles E [VersionRole, RecommendedRole, VersionPointerRole] vlist
      in p\<lparr>majorVersionSelect := w_initialize E (MetaVersionList vlist') (majorVersionSelect p)\<rparr>)"

definition setSelectedVersion ::
  "('w, 'l, 'v) Collaborators \<Rightarrow> 'v BaseVersion option \<Rightarrow> 'w InstallLoaderPage
     \<Rightarrow> 'w InstallLoaderPage" where
  "setSelectedVersion E version p =
     (case dynamic_pointer_cast_Version version of
        None \<Rightarrow> p
      | Some dcast \<Rightarrow>
          p\<lparr>javaVersionSelect :=
              w_selectCurrent E (w_initialize E (JavaVersionList dcast) (javaVersionSelect p))\<rparr>)"

definition page_id :: "'w InstallLoaderPage \<Rightarrow> string" where
  "page_id p = uid p"

definition displayName :: "'w InstallLoaderPage \<Rightarrow> string" where
  "displayName p = name p"

definition openedImpl ::
  "('w, 'l, 'v) Collaborators \<Rightarrow> 'w InstallLoaderPage \<Rightarrow> 'w InstallLoaderPage" where
  "openedImpl E p =
     (if loaded p then p
      else case metadataIndex_get E (uid p) of
             None \<Rightarrow> p
           | Some versions \<Rightarrow> (initialize E versions p)\<lparr>loaded := True\<rparr>)"

definition selectedVersion ::
  "('w, 'l, 'v) Collaborators \<Rightarrow> 'w InstallLoaderPage \<Rightarrow> 'v BaseVersion option" where
  "selectedVersion E p = w_selectedVersion E (javaVersionSelect p)"

definition selectSearch ::
  "('w, 'l, 'v) Collaborators \<Rightarrow> 'w InstallLoaderPage \<Rightarrow> 'w InstallLoaderPage" where
  "selectSearch E p = p\<lparr>javaVersionSelect := w_selectSearch E (javaVersionSelect p)\<rparr>"

definition loadList ::
  "('w, 'l, 'v) Collaborators \<Rightarrow> 'w InstallLoaderPage \<Rightarrow> 'w InstallLoaderPage" where
  "loadList E p =
     p\<lparr>majorVersionSelect := w_loadList E (majorVersionSelect p),
       javaVersionSelect := w_loadList E (javaVersionSelect p)\<rparr>"

text \<open>A sequence of \<open>opened()\<close> calls on one page, each under the application state of its time.\<close>

fun openedImpl_calls ::
  "('w, 'l, 'v) Collaborators list \<Rightarrow> 'w InstallLoaderPage \<Rightarrow> 'w InstallLoaderPage" where
  "openedImpl_calls [] p = p"
| "openedImpl_calls (E # Es) p = openedImpl_calls Es (openedImpl E p)"

subsection \<open>Page pointers\<close>

datatype error = AssertionFailed | NullPointer | InvalidPointer

definition deref :: "'w PageContainer \<Rightarrow> nat option \<Rightarrow> error + 'w InstallLoaderPage" where
  "deref c page =
     (case page of
        None \<Rightarrow> Inl NullPointer
      | Some i \<Rightarrow> if i < length (pages c) then Inr (pages c ! i) else Inl InvalidPointer)"

text \<open>
  \<open>pageCast\<close> asserts that the pointer is a non-null \<open>InstallLoaderPage*\<close>. Every page of the
  container is an \<open>InstallLoaderPage\<close>, so the cast fails on the null pointer only.
\<close>

definition pageCast :: "'w PageContainer \<Rightarrow> nat option \<Rightarrow> error + nat" where
  "pageCast c page =
     (case page of
        None \<Rightarrow> Inl AssertionFailed
      | Some i \<Rightarrow> if i < length (pages c) then Inr i else Inl InvalidPointer)"

subsection \<open>Java::InstallDialog\<close>

datatype WindowModality = NonModal | WindowModal | ApplicationModal

text \<open>
  The dialog: its page container, the Ok button of its button box (text and enabled
  flag), the window properties the constructor sets, and the result code passed to
  \<open>QDialog::done\<close> (\<open>None\<close> while the dialog is open).
\<close>

record 'w InstallDialog =
  container :: "'w PageContainer"
  okText :: string
  okEnabled :: bool
  windowTitle :: string
  windowModality :: WindowModality
  dialogSize :: "nat \<times> nat"
  closedWith :: "int option"

definition getPages :: "('w, 'l, 'v) Collaborators \<Rightarrow> 'w InstallLoaderPage list" where
  "getPages E =
     [ InstallLoaderPage_new E ''net.minecraft.java'' [] (tr E ''Mojang''),
       InstallLoaderPage_new E ''net.adoptium.java'' [] (tr E ''Adoptium''),
       InstallLoaderPage_new E ''com.azul.java'' [] (tr E ''Azul'') ]"

definition dialogTitle :: "('w, 'l, 'v) Collaborators \<Rightarrow> string" where
  "dialogTitle E = tr E ''Install Loader''"

definition validate ::
  "('w, 'l, 'v) Collaborators \<Rightarrow> nat option \<Rightarrow> 'w InstallDialog \<Rightarrow> error + 'w InstallDialog" where
  "validate E page d =
     (case pageCast (container d) page of
        Inl e \<Rightarrow> Inl e
      | Inr i \<Rightarrow> Inr (d\<lparr>okEnabled := (selectedVersion E (pages (container d) ! i) \<noteq> None)\<rparr>))"

text \<open>A member function called through a page pointer updates that page in place.\<close>

definition updatePage ::
  "nat \<Rightarrow> ('w InstallLoaderPage \<Rightarrow> 'w InstallLoaderPage) \<Rightarrow> 'w InstallDialog \<Rightarrow> 'w InstallDialog" where
  "updatePage i f d =
     d\<lparr>container := (container d)\<lparr>pages := (pages (container d))[i := f (pages (container d) ! i)]\<rparr>\<rparr>"

text \<open>
  The loop of the constructor (lines 167-175) over the page pointers of
  \<open>container->getPages()\<close>: the page whose id is the requested \<open>uid\<close> is selected. The
  \<open>connect\<close> of the loop body is part of \<open>deliver\<close> below.
\<close>

fun selectRequestedPage ::
  "('w, 'l, 'v) Collaborators \<Rightarrow> string \<Rightarrow> nat list \<Rightarrow> 'w PageContainer
     \<Rightarrow> error + 'w PageContainer" where
  "selectRequestedPage E ident [] c = Inr c"
| "selectRequestedPage E ident (page # rest) c =
     (case deref c (Some page) of
        Inl e \<Rightarrow> Inl e
      | Inr p \<Rightarrow>
          selectRequestedPage E ident rest
            (if page_id p = ident then selectPage E (page_id p) c else c))"

text \<open>
  The constructor (lines 140-179). The container is built from the dialog's own
  \<open>getPages\<close> with an empty default id; the Ok button gets the text \<open>tr("Download")\<close>; title,
  modality and size are set; then the requested page is selected, the search field of the
  selected page is focused and the dialog is validated.
\<close>

definition InstallDialog_new ::
  "('w, 'l, 'v) Collaborators \<Rightarrow> string \<Rightarrow> error + 'w InstallDialog" where
  "InstallDialog_new E ident =
     (let c = PageContainer_new E (getPages E) [];
          d = \<lparr> container = c, okText = tr E ''Download'', okEnabled = True,
                windowTitle = dialogTitle E, windowModality = WindowModal,
                dialogSize = (840, 480), closedWith = None \<rparr>
      in case selectRequestedPage E ident [0..<length (pages c)] c of
           Inl e \<Rightarrow> Inl e
         | Inr c' \<Rightarrow>
             (case pageCast c' (selectedPage c') of
                Inl e \<Rightarrow> Inl e
              | Inr i \<Rightarrow>
                  (let d' = updatePage i (selectSearch E) (d\<lparr>container := c'\<rparr>)
                   in validate E (selectedPage (container d')) d')))"

subsection \<open>Signals and the slots the constructors connect\<close>

text \<open>
  The slot of line 151, connected to \<open>refreshButton\<close>'s \<open>clicked\<close>:
  \<open>pageCast(container->selectedPage())->loadList()\<close>.
\<close>

definition refresh_slot ::
  "('w, 'l, 'v) Collaborators \<Rightarrow> 'w InstallDialog \<Rightarrow> error + 'w InstallDialog" where
  "refresh_slot E d =
     (case pageCast (container d) (selectedPage (container d)) of
        Inl e \<Rightarrow> Inl e
      | Inr i \<Rightarrow> Inr (updatePage i (loadList E) d))"

text \<open>
  The slot of lines 171-174, connected to the \<open>selectedVersionChanged\<close> signal of the
  captured page: the dialog is validated if the captured page has the id of the selected
  page.
\<close>

definition selectedVersionChanged_slot ::
  "('w, 'l, 'v) Collaborators \<Rightarrow> nat \<Rightarrow> 'w InstallDialog \<Rightarrow> error + 'w InstallDialog" where
  "selectedVersionChanged_slot E page d =
     (case deref (container d) (Some page) of
        Inl e \<Rightarrow> Inl e
      | Inr p \<Rightarrow>
          (case deref (container d) (selectedPage (container d)) of
             Inl e \<Rightarrow> Inl e
           | Inr sp \<Rightarrow>
               if page_id p = page_id sp then validate E (selectedPage (container d)) d
               else Inr d))"

text \<open>
  The signals whose connections this file makes, each with its sender and arguments:
  \<^item> \<open>refreshButton_clicked\<close>: connected to the slot of line 151;
  \<^item> \<open>majorVersionSelect_selectedVersionChanged page version\<close>: sent by the major version
  widget of the page, connected to \<open>setSelectedVersion\<close> of that page (line 59);
  \<^item> \<open>javaVersionSelect_selectedVersionChanged page version\<close>: sent by the java version widget
  of the page, connected to the page's own signal \<open>selectedVersionChanged\<close> (line 60);
  \<^item> \<open>page_selectedVersionChanged page version\<close>: the page's signal, connected for every page
  of the container to the slot of lines 171-174;
  \<^item> \<open>container_selectedPageChanged previous current\<close>: connected to
  \<open>validate(current)\<close> (line 176).
\<close>

datatype 'v Signal =
    refreshButton_clicked
  | majorVersionSelect_selectedVersionChanged nat "'v BaseVersion option"
  | javaVersionSelect_selectedVersionChanged nat "'v BaseVersion option"
  | page_selectedVersionChanged nat "'v BaseVersion option"
  | container_selectedPageChanged "nat option" "nat option"

text \<open>What the emission of a signal does to a constructed dialog: the connected slot runs.\<close>

fun deliver ::
  "('w, 'l, 'v) Collaborators \<Rightarrow> 'v Signal \<Rightarrow> 'w InstallDialog \<Rightarrow> error + 'w InstallDialog" where
  "deliver E refreshButton_clicked d = refresh_slot E d"
| "deliver E (majorVersionSelect_selectedVersionChanged page version) d =
     (case deref (container d) (Some page) of
        Inl e \<Rightarrow> Inl e
      | Inr _ \<Rightarrow> Inr (updatePage page (setSelectedVersion E version) d))"
| "deliver E (javaVersionSelect_selectedVersionChanged page version) d =
     selectedVersionChanged_slot E page d"
| "deliver E (page_selectedVersionChanged page version) d =
     selectedVersionChanged_slot E page d"
| "deliver E (container_selectedPageChanged previous current) d = validate E current d"

subsection \<open>Download tasks and InstallDialog::done\<close>

text \<open>
  The two task classes \<open>done\<close> constructs, each from the url, the destination path, the
  checksum type and the checksum hash, in this order.
\<close>

datatype DownloadTask =
    ManifestDownloadTask string string string string
  | ArchiveDownloadTask string string string string

fun task_path :: "DownloadTask \<Rightarrow> string" where
  "task_path (ManifestDownloadTask u path ct ch) = path"
| "task_path (ArchiveDownloadTask u path ct ch) = path"

datatype TaskSignal = Task_started | Task_succeeded | Task_failed | Task_aborted | Task_finished

text \<open>The lambda of line 220 with the path it captures: \<open>[final_path] { FS::deletePath(final_path); }\<close>.\<close>

datatype TaskSlot = deletePath string

text \<open>A task object: the constructed task and the connections made to its signals.\<close>

record Task =
  impl :: DownloadTask
  connections :: "(TaskSignal \<times> TaskSlot) list"

definition makeShared :: "DownloadTask \<Rightarrow> Task" where
  "makeShared t = \<lparr> impl = t, connections = [] \<rparr>"

definition connect :: "TaskSignal \<Rightarrow> TaskSlot \<Rightarrow> Task \<Rightarrow> Task" where
  "connect sig slot t = t\<lparr>connections := connections t @ [(sig, slot)]\<rparr>"

text \<open>A progress dialog: the skip button as set by \<open>setSkipButton\<close>, if it was called.\<close>

record ProgressDialog =
  skipButton :: "(bool \<times> string) option"

definition ProgressDialog_new :: ProgressDialog where
  "ProgressDialog_new = \<lparr> skipButton = None \<rparr>"

definition setSkipButton :: "bool \<Rightarrow> string \<Rightarrow> ProgressDialog \<Rightarrow> ProgressDialog" where
  "setSkipButton present label pg = pg\<lparr>skipButton := Some (present, label)\<rparr>"

text \<open>
  What \<open>done\<close> does outside the dialog: a progress dialog runs a task, a path is deleted.
\<close>

datatype Event = execWithTask ProgressDialog Task | FS_deletePath string

fun run_slot :: "TaskSlot \<Rightarrow> Event" where
  "run_slot (deletePath path) = FS_deletePath path"

definition emit :: "Task \<Rightarrow> TaskSignal \<Rightarrow> Event list" where
  "emit t sig = map (\<lambda>c. run_slot (snd c)) (filter (\<lambda>c. fst c = sig) (connections t))"

text \<open>
  Modelled from the spec: \<open>ProgressDialog::execWithTask\<close> and \<open>Task\<close> are in other files.
  The spec: "the long-running download is delegated to an external task object whose
  execution and progress reporting are handled by a separate progress-dialog
  collaborator", and "On download failure or user abort, the partially-downloaded path is
  deleted". The run is one event; \<open>emitted\<close>, a parameter, is the sequence of signals the
  task emits during the run, and each emission runs the slots connected to that signal,
  in the order of their connection. The call is taken to return.
\<close>

definition ProgressDialog_execWithTask ::
  "TaskSignal list \<Rightarrow> ProgressDialog \<Rightarrow> Task \<Rightarrow> Event list" where
  "ProgressDialog_execWithTask emitted pg t = execWithTask pg t # concat (map (emit t) emitted)"

definition Accepted :: int where
  "Accepted = 1"

definition Rejected :: int where
  "Rejected = 0"

text \<open>\<open>QDialog::done(r)\<close> closes the dialog with the result code \<open>r\<close>.\<close>

definition QDialog_done :: "int \<Rightarrow> 'w InstallDialog \<Rightarrow> 'w InstallDialog" where
  "QDialog_done r d = d\<lparr>closedWith := Some r\<rparr>"

text \<open>
  \<open>InstallDialog::done\<close> (lines 203-231): the events of the block guarded by
  \<open>result == Accepted\<close>, then \<open>QDialog::done(result)\<close>.
\<close>

definition InstallDialog_done ::
  "('w, 'l, 'v) Collaborators \<Rightarrow> TaskSignal list \<Rightarrow> int \<Rightarrow> 'w InstallDialog
     \<Rightarrow> error + ('w InstallDialog \<times> Event list)" where
  "InstallDialog_done E emitted result d =
     (case
        (if result = Accepted then
           (case pageCast (container d) (selectedPage (container d)) of
              Inl e \<Rightarrow> Inl e
            | Inr i \<Rightarrow>
                (let page = pages (container d) ! i in
                 if selectedVersion E page \<noteq> None then
                   (case dynamic_pointer_cast_Metadata (selectedVersion E page) of
                      None \<Rightarrow> Inr []
                    | Some meta \<Rightarrow>
                        (let final_path = PathCombine E (javaPath E) (m_name meta);
                             task =
                               (case downloadType meta of
                                  Manifest \<Rightarrow>
                                    makeShared (ManifestDownloadTask (url meta) final_path
                                      (checksumType meta) (checksumHash meta))
                                | Archive \<Rightarrow>
                                    makeShared (ArchiveDownloadTask (url meta) final_path
                                      (checksumType meta) (checksumHash meta)));
                             task1 = connect Task_failed (deletePath final_path) task;
                             task2 = connect Task_aborted (deletePath final_path) task1;
                             pg = setSkipButton True (tr E ''Abort'') ProgressDialog_new
                         in Inr (ProgressDialog_execWithTask emitted pg task2)))
                 else Inr []))
         else Inr [])
      of
        Inl e \<Rightarrow> Inl e
      | Inr events \<Rightarrow> Inr (QDialog_done result d, events))"

subsection \<open>An instance of the collaborators\<close>

text \<open>
  A simple instance on which the functions can be run: a widget records the list it was
  initialized with, its selected version and how often its list was reloaded; version
  lists and versions are named by strings; the index has a list for every id but
  \<open>com.azul.java\<close>; the container selects its first page, and \<open>selectPage\<close> selects the
  first page with the given id, if there is one.
\<close>

record ExampleWidget =
  ew_list :: "(string, string) BaseVersionList option"
  ew_selected :: "string BaseVersion option"
  ew_reloads :: nat

definition example_selectPage :: "string \<Rightarrow> 'w PageContainer \<Rightarrow> 'w PageContainer" where
  "example_selectPage ident c =
     (case filter (\<lambda>i. uid (pages c ! i) = ident) [0..<length (pages c)] of
        [] \<Rightarrow> c
      | i # _ \<Rightarrow> c\<lparr>selectedPage := Some i\<rparr>)"

definition example_env :: "(ExampleWidget, string, string) Collaborators" where
  "example_env =
     \<lparr> tr = (\<lambda>s. s),
       VersionSelectWidget_new = \<lparr> ew_list = None, ew_selected = None, ew_reloads = 0 \<rparr>,
       w_setEmptyString = (\<lambda>s w. w),
       w_setEmptyErrorString = (\<lambda>s w. w),
       w_initialize = (\<lambda>l w. w\<lparr>ew_list := Some l, ew_selected := None\<rparr>),
       w_selectCurrent = (\<lambda>w. w),
       w_selectSearch = (\<lambda>w. w),
       w_loadList = (\<lambda>w. w\<lparr>ew_reloads := Suc (ew_reloads w)\<rparr>),
       w_selectedVersion = ew_selected,
       setProvidedRoles = (\<lambda>roles l. l),
       metadataIndex_get = (\<lambda>ident. if ident = ''com.azul.java'' then None else Some ident),
       javaPath = ''java'',
       PathCombine = (\<lambda>a b. a @ ''/'' @ b),
       PageContainer_new =
         (\<lambda>ps defaultId. \<lparr> pages = ps, selectedPage = (if ps = [] then None else Some 0) \<rparr>),
       selectPage = example_selectPage \<rparr>"

text \<open>Two Java runtimes of the example, and a page on which a version is selected.\<close>

definition example_meta :: Metadata where
  "example_meta =
     \<lparr> m_name = ''jre17'', url = ''https://example.org/jre17.zip'',
       checksumType = ''sha256'', checksumHash = ''abc'', downloadType = Archive \<rparr>"

definition example_manifest :: Metadata where
  "example_manifest =
     \<lparr> m_name = ''jre8'', url = ''https://example.org/jre8.json'',
       checksumType = ''sha1'', checksumHash = ''def'', downloadType = Manifest \<rparr>"

definition example_page ::
  "string \<Rightarrow> string BaseVersion option \<Rightarrow> ExampleWidget InstallLoaderPage" where
  "example_page ident v =
     \<lparr> uid = ident, iconName = [], name = ident, loaded = False,
       majorVersionSelect = \<lparr> ew_list = None, ew_selected = None, ew_reloads = 0 \<rparr>,
       javaVersionSelect = \<lparr> ew_list = None, ew_selected = v, ew_reloads = 0 \<rparr> \<rparr>"

text \<open>
  A dialog with the three vendor pages: a runtime is chosen on the first and on the third
  page, none on the second. \<open>example_dialog\<close> has the second page selected,
  \<open>example_selected n\<close> the page at position \<open>n\<close>.
\<close>

definition example_selected :: "nat \<Rightarrow> ExampleWidget InstallDialog" where
  "example_selected n =
     \<lparr> container =
         \<lparr> pages = [ example_page ''net.minecraft.java'' (Some (JavaMetadata example_manifest)),
                     example_page ''net.adoptium.java'' None,
                     example_page ''com.azul.java'' (Some (JavaMetadata example_meta)) ],
           selectedPage = Some n \<rparr>,
       okText = ''Download'', okEnabled = False, windowTitle = ''Install Loader'',
       windowModality = WindowModal, dialogSize = (840, 480), closedWith = None \<rparr>"

definition example_dialog :: "ExampleWidget InstallDialog" where
  "example_dialog = example_selected 1"

section \<open>Properties\<close>

subsection \<open>Page pointers and validation\<close>

lemma pageCast_Inr_iff:
  "pageCast c page = Inr i \<longleftrightarrow> page = Some i \<and> i < length (pages c)"
  by (auto simp: pageCast_def split: option.splits)

lemma validate_Inr:
  "pageCast (container d) page = Inr i \<Longrightarrow>
   validate E page d =
     Inr (d\<lparr>okEnabled := (selectedVersion E (pages (container d) ! i) \<noteq> None)\<rparr>)"
  by (simp add: validate_def)

lemma validate_result:
  "validate E page d = Inr d' \<Longrightarrow>
   okText d' = okText d \<and> windowModality d' = windowModality d \<and> container d' = container d
   \<and> windowTitle d' = windowTitle d \<and> closedWith d' = closedWith d"
  by (auto simp: validate_def split: sum.splits)

lemma InstallDialog_new_window:
  "InstallDialog_new E ident = Inr d \<Longrightarrow>
   okText d = tr E ''Download'' \<and> windowModality d = WindowModal \<and> windowTitle d = dialogTitle E"
  by (auto simp: InstallDialog_new_def Let_def updatePage_def split: sum.splits
      dest!: validate_result)

text \<open>The constructor run on the example: the page with the requested id is selected.\<close>

lemma example_new:
  "InstallDialog_new example_env ''net.adoptium.java'' =
     Inr \<lparr> container = \<lparr> pages = getPages example_env, selectedPage = Some 1 \<rparr>,
           okText = ''Download'', okEnabled = False, windowTitle = ''Install Loader'',
           windowModality = WindowModal, dialogSize = (840, 480), closedWith = None \<rparr>"
  by (simp add: InstallDialog_new_def example_env_def getPages_def InstallLoaderPage_new_def
      example_selectPage_def deref_def pageCast_def page_id_def updatePage_def validate_def
      selectSearch_def selectedVersion_def dialogTitle_def Let_def upt_rec)

text \<open>
  C1. The constructor sets the text of the Ok button to \<open>tr("Download")\<close>, and for every
  page pointer passed to \<open>validate\<close> that names a page of the container, \<open>validate\<close>
  returns with the Ok button enabled if and only if \<open>selectedVersion()\<close> of that page is
  not null; it changes nothing else of the dialog, the text of the button included.
\<close>

theorem validate_enables_download_iff_version_selected:
  "(InstallDialog_new E ident = Inr d0 \<longrightarrow> okText d0 = tr E ''Download'') \<and>
   (pageCast (container d) page = Inr i \<longrightarrow>
     (\<exists>d'. validate E page d = Inr d' \<and>
        (okEnabled d' \<longleftrightarrow> selectedVersion E (pages (container d) ! i) \<noteq> None) \<and>
        okText d' = okText d \<and> d'\<lparr>okEnabled := okEnabled d\<rparr> = d))"
  by (simp add: validate_Inr InstallDialog_new_window)

theorem validate_enables_download_iff_version_selected_witness:
  "(\<exists>d0. InstallDialog_new example_env ''net.adoptium.java'' = Inr d0 \<and>
      okText d0 = ''Download'') \<and>
   pageCast (container example_dialog) (Some 2) = Inr 2 \<and>
   selectedVersion example_env (pages (container example_dialog) ! 2) \<noteq> None \<and>
   (\<exists>d'. validate example_env (Some 2) example_dialog = Inr d' \<and>
      okEnabled d' \<and> okText d' = ''Download'') \<and>
   pageCast (container example_dialog) (Some 1) = Inr 1 \<and>
   selectedVersion example_env (pages (container example_dialog) ! 1) = None \<and>
   (\<exists>d'. validate example_env (Some 1) example_dialog = Inr d' \<and>
      \<not> okEnabled d' \<and> okText d' = ''Download'')"
proof -
  have c2: "pageCast (container example_dialog) (Some 2) = Inr 2"
    by (simp add: pageCast_def example_dialog_def example_selected_def)
  have c1: "pageCast (container example_dialog) (Some 1) = Inr 1"
    by (simp add: pageCast_def example_dialog_def example_selected_def)
  have s2: "selectedVersion example_env (pages (container example_dialog) ! 2) \<noteq> None"
    by (simp add: selectedVersion_def example_env_def example_dialog_def example_selected_def
        example_page_def)
  have s1: "selectedVersion example_env (pages (container example_dialog) ! 1) = None"
    by (simp add: selectedVersion_def example_env_def example_dialog_def example_selected_def
        example_page_def)
  have t: "okText example_dialog = ''Download''" "tr example_env ''Download'' = ''Download''"
    by (simp_all add: example_dialog_def example_selected_def example_env_def)
  note n = validate_enables_download_iff_version_selected
    [of example_env "''net.adoptium.java''" _ example_dialog]
  from n [of _ "Some 2" 2] n [of _ "Some 1" 1] example_new c1 c2 s1 s2 t show ?thesis
    by auto
qed

subsection \<open>The download dispatched by done\<close>

lemma emit_connected:
  "emit \<lparr> impl = k, connections = [(Task_failed, deletePath fp), (Task_aborted, deletePath fp)] \<rparr> s =
     (if s = Task_failed \<or> s = Task_aborted then [FS_deletePath fp] else [])"
  by (auto simp: emit_def)

lemma emitted_deletions:
  "concat (map (emit \<lparr> impl = k,
       connections = [(Task_failed, deletePath fp), (Task_aborted, deletePath fp)] \<rparr>) emitted) =
   map (\<lambda>s. FS_deletePath fp) (filter (\<lambda>s. s = Task_failed \<or> s = Task_aborted) emitted)"
  by (induction emitted) (simp_all add: emit_connected)

lemma done_not_accepted:
  "result \<noteq> Accepted \<Longrightarrow> InstallDialog_done E emitted result d = Inr (QDialog_done result d, [])"
  by (simp add: InstallDialog_done_def)

lemma done_no_metadata:
  "pageCast (container d) (selectedPage (container d)) = Inr i \<Longrightarrow>
   dynamic_pointer_cast_Metadata (selectedVersion E (pages (container d) ! i)) = None \<Longrightarrow>
   InstallDialog_done E emitted result d = Inr (QDialog_done result d, [])"
  by (simp add: InstallDialog_done_def Let_def)

lemma done_metadata:
  "pageCast (container d) (selectedPage (container d)) = Inr i \<Longrightarrow>
   dynamic_pointer_cast_Metadata (selectedVersion E (pages (container d) ! i)) = Some meta \<Longrightarrow>
   InstallDialog_done E emitted Accepted d =
     Inr (QDialog_done Accepted d,
          ProgressDialog_execWithTask emitted \<lparr> skipButton = Some (True, tr E ''Abort'') \<rparr>
            \<lparr> impl =
                (case downloadType meta of
                   Manifest \<Rightarrow>
                     ManifestDownloadTask (url meta) (PathCombine E (javaPath E) (m_name meta))
                       (checksumType meta) (checksumHash meta)
                 | Archive \<Rightarrow>
                     ArchiveDownloadTask (url meta) (PathCombine E (javaPath E) (m_name meta))
                       (checksumType meta) (checksumHash meta)),
              connections =
                [(Task_failed, deletePath (PathCombine E (javaPath E) (m_name meta))),
                 (Task_aborted, deletePath (PathCombine E (javaPath E) (m_name meta)))] \<rparr>)"
  by (auto simp: InstallDialog_done_def Let_def makeShared_def connect_def setSkipButton_def
      ProgressDialog_new_def split: DownloadType.splits)

lemma example_selected_cast:
  "n < 3 \<Longrightarrow>
   pageCast (container (example_selected n)) (selectedPage (container (example_selected n))) =
     Inr n"
  by (simp add: example_selected_def pageCast_def)

lemma example_selected_version:
  "selectedVersion example_env (pages (container (example_selected n)) ! 0) =
     Some (JavaMetadata example_manifest)"
  "selectedVersion example_env (pages (container (example_selected n)) ! 1) = None"
  "selectedVersion example_env (pages (container (example_selected n)) ! 2) =
     Some (JavaMetadata example_meta)"
  by (simp_all add: example_selected_def selectedVersion_def example_env_def example_page_def)

text \<open>
  C2. When \<open>done\<close> is called with \<open>Accepted\<close> and the selected version of the selected page
  casts to \<open>Java::Metadata\<close>, exactly one task is run, and it is chosen by the metadata's
  \<open>downloadType\<close>: a \<open>ManifestDownloadTask\<close> for \<open>Manifest\<close>, an \<open>ArchiveDownloadTask\<close> for
  \<open>Archive\<close>, each constructed from the metadata's url, the destination path
  \<open>PathCombine(javaPath(), m_name)\<close>, \<open>checksumType\<close> and \<open>checksumHash\<close>. Every other
  event of the call is the deletion of a path, so no other task is produced.
\<close>

theorem done_dispatches_on_downloadType:
  assumes "pageCast (container d) (selectedPage (container d)) = Inr i"
    and "dynamic_pointer_cast_Metadata (selectedVersion E (pages (container d) ! i)) = Some meta"
  shows "\<exists>d' pg t deleted.
           InstallDialog_done E emitted Accepted d =
             Inr (d', execWithTask pg t # map FS_deletePath deleted) \<and>
           impl t =
             (case downloadType meta of
                Manifest \<Rightarrow>
                  ManifestDownloadTask (url meta) (PathCombine E (javaPath E) (m_name meta))
                    (checksumType meta) (checksumHash meta)
              | Archive \<Rightarrow>
                  ArchiveDownloadTask (url meta) (PathCombine E (javaPath E) (m_name meta))
                    (checksumType meta) (checksumHash meta))"
proof -
  let ?fp = "PathCombine E (javaPath E) (m_name meta)"
  let ?k = "case downloadType meta of
              Manifest \<Rightarrow>
                ManifestDownloadTask (url meta) ?fp (checksumType meta) (checksumHash meta)
            | Archive \<Rightarrow>
                ArchiveDownloadTask (url meta) ?fp (checksumType meta) (checksumHash meta)"
  let ?t = "\<lparr> impl = ?k,
             connections = [(Task_failed, deletePath ?fp), (Task_aborted, deletePath ?fp)] \<rparr>"
  have run: "InstallDialog_done E emitted Accepted d =
      Inr (QDialog_done Accepted d,
           execWithTask \<lparr> skipButton = Some (True, tr E ''Abort'') \<rparr> ?t #
           map FS_deletePath
             (map (\<lambda>s. ?fp) (filter (\<lambda>s. s = Task_failed \<or> s = Task_aborted) emitted)))"
    by (simp add: done_metadata [OF assms] ProgressDialog_execWithTask_def emitted_deletions
        comp_def)
  have "impl ?t = ?k"
    by simp
  with run show ?thesis
    by blast
qed

theorem done_dispatches_on_downloadType_witness:
  "pageCast (container (example_selected 2)) (selectedPage (container (example_selected 2))) = Inr 2 \<and>
   dynamic_pointer_cast_Metadata
     (selectedVersion example_env (pages (container (example_selected 2)) ! 2)) = Some example_meta \<and>
   (\<exists>d' pg t deleted.
      InstallDialog_done example_env [Task_succeeded] Accepted (example_selected 2) =
        Inr (d', execWithTask pg t # map FS_deletePath deleted) \<and>
      impl t = ArchiveDownloadTask ''https://example.org/jre17.zip'' ''java/jre17'' ''sha256'' ''abc'') \<and>
   pageCast (container (example_selected 0)) (selectedPage (container (example_selected 0))) = Inr 0 \<and>
   dynamic_pointer_cast_Metadata
     (selectedVersion example_env (pages (container (example_selected 0)) ! 0)) = Some example_manifest \<and>
   (\<exists>d' pg t deleted.
      InstallDialog_done example_env [Task_succeeded] Accepted (example_selected 0) =
        Inr (d', execWithTask pg t # map FS_deletePath deleted) \<and>
      impl t =
          ManifestDownloadTask ''https://example.org/jre8.json'' ''java/jre8'' ''sha1'' ''def'')"
proof -
  have a2: "pageCast (container (example_selected 2)) (selectedPage (container (example_selected 2))) =
      Inr 2"
    by (simp add: example_selected_cast)
  have b2: "dynamic_pointer_cast_Metadata
     (selectedVersion example_env (pages (container (example_selected 2)) ! 2)) = Some example_meta"
    by (simp add: example_selected_version)
  have a0: "pageCast (container (example_selected 0)) (selectedPage (container (example_selected 0))) =
      Inr 0"
    by (simp add: example_selected_cast)
  have b0: "dynamic_pointer_cast_Metadata
     (selectedVersion example_env (pages (container (example_selected 0)) ! 0)) =
         Some example_manifest"
    by (simp add: example_selected_version)
  have e: "PathCombine example_env (javaPath example_env) (m_name example_meta) = ''java/jre17''"
     "PathCombine example_env (javaPath example_env) (m_name example_manifest) = ''java/jre8''"
    by (simp_all add: example_env_def example_meta_def example_manifest_def)
  from done_dispatches_on_downloadType [OF a2 b2, of "[Task_succeeded]"]
       done_dispatches_on_downloadType [OF a0 b0, of "[Task_succeeded]"]
  show ?thesis
    unfolding e using a2 b2 a0 b0 by (simp add: example_meta_def example_manifest_def)
qed


text \<open>
  C3. The task that \<open>done\<close> runs downloads to
  \<open>final_path = PathCombine(javaPath(), m_name)\<close>; its connections are exactly two, from
  \<open>failed\<close> and from \<open>aborted\<close> to the deletion of \<open>final_path\<close>. So an emission of \<open>failed\<close>
  or of \<open>aborted\<close> deletes exactly \<open>final_path\<close>, the emission of any other signal runs
  nothing, and the events of the whole call are the run of the task followed by one
  deletion of \<open>final_path\<close> for every \<open>failed\<close> or \<open>aborted\<close> the task emits.
\<close>

theorem done_deletes_destination_on_failure_and_abort:
  assumes "pageCast (container d) (selectedPage (container d)) = Inr i"
    and "dynamic_pointer_cast_Metadata (selectedVersion E (pages (container d) ! i)) = Some meta"
  shows "\<exists>d' pg t final_path.
           final_path = PathCombine E (javaPath E) (m_name meta) \<and>
           InstallDialog_done E emitted Accepted d =
             Inr (d', execWithTask pg t #
                      map (\<lambda>s. FS_deletePath final_path)
                        (filter (\<lambda>s. s = Task_failed \<or> s = Task_aborted) emitted)) \<and>
           task_path (impl t) = final_path \<and>
           connections t =
             [(Task_failed, deletePath final_path), (Task_aborted, deletePath final_path)] \<and>
           emit t Task_failed = [FS_deletePath final_path] \<and>
           emit t Task_aborted = [FS_deletePath final_path] \<and>
           emit t Task_started = [] \<and> emit t Task_succeeded = [] \<and> emit t Task_finished = []"
proof -
  let ?fp = "PathCombine E (javaPath E) (m_name meta)"
  let ?k = "case downloadType meta of
              Manifest \<Rightarrow>
                ManifestDownloadTask (url meta) ?fp (checksumType meta) (checksumHash meta)
            | Archive \<Rightarrow>
                ArchiveDownloadTask (url meta) ?fp (checksumType meta) (checksumHash meta)"
  let ?t = "\<lparr> impl = ?k,
             connections = [(Task_failed, deletePath ?fp), (Task_aborted, deletePath ?fp)] \<rparr>"
  have run: "InstallDialog_done E emitted Accepted d =
      Inr (QDialog_done Accepted d,
           execWithTask \<lparr> skipButton = Some (True, tr E ''Abort'') \<rparr> ?t #
           map (\<lambda>s. FS_deletePath ?fp)
             (filter (\<lambda>s. s = Task_failed \<or> s = Task_aborted) emitted))"
    by (simp add: done_metadata [OF assms] ProgressDialog_execWithTask_def emitted_deletions)
  have path: "task_path (impl ?t) = ?fp"
    by (cases "downloadType meta") simp_all
  have conn: "connections ?t = [(Task_failed, deletePath ?fp), (Task_aborted, deletePath ?fp)]"
    by simp
  have em: "emit ?t Task_failed = [FS_deletePath ?fp]" "emit ?t Task_aborted = [FS_deletePath ?fp]"
    "emit ?t Task_started = []" "emit ?t Task_succeeded = []" "emit ?t Task_finished = []"
    by (simp_all add: emit_connected)
  from run path conn em show ?thesis
    by blast
qed

theorem done_deletes_destination_on_failure_and_abort_witness:
  "pageCast (container (example_selected 2)) (selectedPage (container (example_selected 2))) = Inr 2 \<and>
   dynamic_pointer_cast_Metadata
     (selectedVersion example_env (pages (container (example_selected 2)) ! 2)) = Some example_meta \<and>
   (\<exists>d' pg t.
      InstallDialog_done example_env [Task_started, Task_failed, Task_finished] Accepted
          (example_selected 2) =
        Inr (d', [execWithTask pg t, FS_deletePath ''java/jre17'']) \<and>
      task_path (impl t) = ''java/jre17'') \<and>
   (\<exists>d' pg t.
      InstallDialog_done example_env [Task_started, Task_aborted, Task_finished] Accepted
          (example_selected 2) =
        Inr (d', [execWithTask pg t, FS_deletePath ''java/jre17'']) \<and>
      task_path (impl t) = ''java/jre17'') \<and>
   (\<exists>d' pg t.
      InstallDialog_done example_env [Task_started, Task_succeeded, Task_finished] Accepted
          (example_selected 2) =
        Inr (d', [execWithTask pg t]) \<and>
      task_path (impl t) = ''java/jre17'')"
proof -
  have a: "pageCast (container (example_selected 2)) (selectedPage (container (example_selected 2))) =
      Inr 2"
    by (simp add: example_selected_cast)
  have b: "dynamic_pointer_cast_Metadata
     (selectedVersion example_env (pages (container (example_selected 2)) ! 2)) = Some example_meta"
    by (simp add: example_selected_version)
  have e: "PathCombine example_env (javaPath example_env) (m_name example_meta) = ''java/jre17''"
    by (simp add: example_env_def example_meta_def)
  note n = done_deletes_destination_on_failure_and_abort [OF a b, unfolded e]
  have f: "\<exists>d' pg t.
      InstallDialog_done example_env [Task_started, Task_failed, Task_finished] Accepted
          (example_selected 2) =
        Inr (d', [execWithTask pg t, FS_deletePath ''java/jre17'']) \<and>
      task_path (impl t) = ''java/jre17''"
    using n [of "[Task_started, Task_failed, Task_finished]"] by auto
  have g: "\<exists>d' pg t.
      InstallDialog_done example_env [Task_started, Task_aborted, Task_finished] Accepted
          (example_selected 2) =
        Inr (d', [execWithTask pg t, FS_deletePath ''java/jre17'']) \<and>
      task_path (impl t) = ''java/jre17''"
    using n [of "[Task_started, Task_aborted, Task_finished]"] by auto
  have h: "\<exists>d' pg t.
      InstallDialog_done example_env [Task_started, Task_succeeded, Task_finished] Accepted
          (example_selected 2) =
        Inr (d', [execWithTask pg t]) \<and>
      task_path (impl t) = ''java/jre17''"
    using n [of "[Task_started, Task_succeeded, Task_finished]"] by auto
  from a b f g h show ?thesis
    by (intro conjI)
qed

lemma cast_Metadata_Some_iff:
  "dynamic_pointer_cast_Metadata v = Some m \<longleftrightarrow> v = Some (JavaMetadata m)"
  by (cases v rule: dynamic_pointer_cast_Metadata.cases) auto

text \<open>
  C4. With a selected page to cast (needed only when the result is \<open>Accepted\<close>), \<open>done\<close>
  returns, and the dialog it returns is the one \<open>QDialog::done(result)\<close> yields: closed
  with the result \<open>done\<close> was given. A task is run if and only if the result is
  \<open>Accepted\<close>, the selected version of the selected page is not null and it casts to
  \<open>Java::Metadata\<close>; the progress dialog that runs it has the skip button set, labelled
  \<open>tr("Abort")\<close>; and when no task is run, nothing else happens either.
\<close>

theorem done_downloads_iff_and_always_closes:
  assumes "result = Accepted \<longrightarrow>
             pageCast (container d) (selectedPage (container d)) = Inr i"
  shows "\<exists>events.
           InstallDialog_done E emitted result d = Inr (QDialog_done result d, events) \<and>
           closedWith (QDialog_done result d) = Some result \<and>
           ((\<exists>pg t. execWithTask pg t \<in> set events) \<longleftrightarrow>
              result = Accepted \<and>
              selectedVersion E (pages (container d) ! i) \<noteq> None \<and>
              dynamic_pointer_cast_Metadata (selectedVersion E (pages (container d) ! i)) \<noteq> None) \<and>
           (\<forall>pg t. execWithTask pg t \<in> set events \<longrightarrow>
              skipButton pg = Some (True, tr E ''Abort'')) \<and>
           ((\<forall>pg t. execWithTask pg t \<notin> set events) \<longrightarrow> events = [])"
proof (cases "result = Accepted")
  case False
  then show ?thesis
    by (simp add: done_not_accepted QDialog_done_def)
next
  case True
  with assms have pc: "pageCast (container d) (selectedPage (container d)) = Inr i"
    by simp
  show ?thesis
  proof (cases "dynamic_pointer_cast_Metadata (selectedVersion E (pages (container d) ! i))")
    case None
    then show ?thesis
      by (simp add: done_no_metadata [OF pc] QDialog_done_def)
  next
    case (Some meta)
    then have "selectedVersion E (pages (container d) ! i) \<noteq> None"
      by (auto simp: cast_Metadata_Some_iff)
    with Some True show ?thesis
      by (auto simp: done_metadata [OF pc Some] QDialog_done_def ProgressDialog_execWithTask_def
          emitted_deletions)
  qed
qed

theorem done_downloads_iff_and_always_closes_witness:
  "(\<exists>events.
      InstallDialog_done example_env [Task_succeeded] Accepted (example_selected 2) =
        Inr (QDialog_done Accepted (example_selected 2), events) \<and>
      closedWith (QDialog_done Accepted (example_selected 2)) = Some Accepted \<and>
      (\<exists>pg t. execWithTask pg t \<in> set events)) \<and>
   InstallDialog_done example_env [Task_succeeded] Accepted (example_selected 1) =
     Inr (QDialog_done Accepted (example_selected 1), []) \<and>
   closedWith (QDialog_done Accepted (example_selected 1)) = Some Accepted \<and>
   InstallDialog_done example_env [Task_succeeded] Rejected (example_selected 2) =
     Inr (QDialog_done Rejected (example_selected 2), []) \<and>
   closedWith (QDialog_done Rejected (example_selected 2)) = Some Rejected"
proof -
  have a2: "Accepted = Accepted \<longrightarrow>
      pageCast (container (example_selected 2)) (selectedPage (container (example_selected 2))) =
          Inr 2"
    by (simp add: example_selected_cast)
  have a1: "Accepted = Accepted \<longrightarrow>
      pageCast (container (example_selected 1)) (selectedPage (container (example_selected 1))) =
          Inr 1"
    by (simp add: example_selected_cast)
  have r: "Rejected = Accepted \<longrightarrow>
      pageCast (container (example_selected 2)) (selectedPage (container (example_selected 2))) =
          Inr 2"
    by (simp add: example_selected_cast)
  have ne: "Rejected \<noteq> Accepted"
    by (simp add: Rejected_def Accepted_def)
  have v1: "selectedVersion example_env (pages (container (example_selected (Suc 0))) ! Suc 0) =
      None"
    using example_selected_version (2) [of 1] by simp
  note v = example_selected_version v1
  have f: "\<exists>events.
      InstallDialog_done example_env [Task_succeeded] Accepted (example_selected 2) =
        Inr (QDialog_done Accepted (example_selected 2), events) \<and>
      closedWith (QDialog_done Accepted (example_selected 2)) = Some Accepted \<and>
      (\<exists>pg t. execWithTask pg t \<in> set events)"
    using done_downloads_iff_and_always_closes [OF a2, of example_env "[Task_succeeded]"]
    by (simp add: v) blast
  have g: "InstallDialog_done example_env [Task_succeeded] Accepted (example_selected 1) =
        Inr (QDialog_done Accepted (example_selected 1), []) \<and>
      closedWith (QDialog_done Accepted (example_selected 1)) = Some Accepted"
    using done_downloads_iff_and_always_closes [OF a1, of example_env "[Task_succeeded]"]
    by (auto simp: v)
  have h: "InstallDialog_done example_env [Task_succeeded] Rejected (example_selected 2) =
        Inr (QDialog_done Rejected (example_selected 2), []) \<and>
      closedWith (QDialog_done Rejected (example_selected 2)) = Some Rejected"
    using done_downloads_iff_and_always_closes [OF r, of example_env "[Task_succeeded]"] ne
    by (auto simp: v)
  from f g h show ?thesis
    by (intro conjI) simp_all
qed

subsection \<open>The vendor pages\<close>

lemma getPages_ids:
  "map page_id (getPages E) = [''net.minecraft.java'', ''net.adoptium.java'', ''com.azul.java'']"
  by (simp add: getPages_def InstallLoaderPage_new_def page_id_def)

lemma getPages_distinct_ids: "distinct (map page_id (getPages E))"
  by (simp add: getPages_ids)

text \<open>
  C5. \<open>getPages\<close> returns exactly three pages, named Mojang, Adoptium and Azul in this
  order (each name passed through \<open>tr\<close>), with the ids \<open>net.minecraft.java\<close>,
  \<open>net.adoptium.java\<close> and \<open>com.azul.java\<close>. \<open>openedImpl\<close> on each of them looks its id up
  in the metadata index: the list found initializes the major version widget and the
  page is marked loaded; if none is found the page is unchanged.
\<close>

theorem getPages_three_vendor_pages:
  "length (getPages E) = 3 \<and>
   map displayName (getPages E) = [tr E ''Mojang'', tr E ''Adoptium'', tr E ''Azul''] \<and>
   map page_id (getPages E) = [''net.minecraft.java'', ''net.adoptium.java'', ''com.azul.java''] \<and>
   (\<forall>i < 3.
      openedImpl E (getPages E ! i) =
        (case metadataIndex_get E
                ([''net.minecraft.java'', ''net.adoptium.java'', ''com.azul.java''] ! i) of
           None \<Rightarrow> getPages E ! i
         | Some versions \<Rightarrow>
             (getPages E ! i)
               \<lparr> majorVersionSelect :=
                   w_initialize E
                     (MetaVersionList
                        (setProvidedRoles E [VersionRole, RecommendedRole, VersionPointerRole]
                           versions))
                     (majorVersionSelect (getPages E ! i)),
                 loaded := True \<rparr>))"
proof -
  have l: "length (getPages E) = 3"
    by (simp add: getPages_def)
  have n: "map displayName (getPages E) = [tr E ''Mojang'', tr E ''Adoptium'', tr E ''Azul'']"
    by (simp add: getPages_def InstallLoaderPage_new_def displayName_def)
  have o: "openedImpl E (getPages E ! i) =
        (case metadataIndex_get E
                ([''net.minecraft.java'', ''net.adoptium.java'', ''com.azul.java''] ! i) of
           None \<Rightarrow> getPages E ! i
         | Some versions \<Rightarrow>
             (getPages E ! i)
               \<lparr> majorVersionSelect :=
                   w_initialize E
                     (MetaVersionList
                        (setProvidedRoles E [VersionRole, RecommendedRole, VersionPointerRole]
                           versions))
                     (majorVersionSelect (getPages E ! i)),
                 loaded := True \<rparr>)" if "i < 3" for i
  proof -
    from that have "i = 0 \<or> i = 1 \<or> i = 2"
      by arith
    then show ?thesis
      by (elim disjE)
        (simp_all add: getPages_def InstallLoaderPage_new_def openedImpl_def initialize_def
          Let_def split: option.splits)
  qed
  from l n o getPages_ids show ?thesis
    by blast
qed

theorem getPages_three_vendor_pages_witness:
  "map page_id (getPages example_env) =
     [''net.minecraft.java'', ''net.adoptium.java'', ''com.azul.java''] \<and>
   map displayName (getPages example_env) = [''Mojang'', ''Adoptium'', ''Azul''] \<and>
   (0::nat) < 3 \<and>
   ew_list (majorVersionSelect (openedImpl example_env (getPages example_env ! 0))) =
     Some (MetaVersionList ''net.minecraft.java'') \<and>
   loaded (openedImpl example_env (getPages example_env ! 0)) \<and>
   (1::nat) < 3 \<and>
   ew_list (majorVersionSelect (openedImpl example_env (getPages example_env ! 1))) =
     Some (MetaVersionList ''net.adoptium.java'') \<and>
   (2::nat) < 3 \<and>
   openedImpl example_env (getPages example_env ! 2) = getPages example_env ! 2 \<and>
   \<not> loaded (openedImpl example_env (getPages example_env ! 2))"
proof -
  note t = getPages_three_vendor_pages [of example_env]
  from t have ids: "map page_id (getPages example_env) =
     [''net.minecraft.java'', ''net.adoptium.java'', ''com.azul.java'']"
    by simp
  from t have names: "map displayName (getPages example_env) = [''Mojang'', ''Adoptium'', ''Azul'']"
    by (simp add: example_env_def)
  from t have o: "\<forall>i < 3.
      openedImpl example_env (getPages example_env ! i) =
        (case metadataIndex_get example_env
                ([''net.minecraft.java'', ''net.adoptium.java'', ''com.azul.java''] ! i) of
           None \<Rightarrow> getPages example_env ! i
         | Some versions \<Rightarrow>
             (getPages example_env ! i)
               \<lparr> majorVersionSelect :=
                   w_initialize example_env
                     (MetaVersionList
                        (setProvidedRoles example_env
                           [VersionRole, RecommendedRole, VersionPointerRole] versions))
                     (majorVersionSelect (getPages example_env ! i)),
                 loaded := True \<rparr>)"
    by blast
  have i: "metadataIndex_get example_env ''net.minecraft.java'' = Some ''net.minecraft.java''"
    "metadataIndex_get example_env ''net.adoptium.java'' = Some ''net.adoptium.java''"
    "metadataIndex_get example_env ''com.azul.java'' = None"
    by (simp_all add: example_env_def)
  have w: "w_initialize example_env l w = w\<lparr>ew_list := Some l, ew_selected := None\<rparr>"
    "setProvidedRoles example_env r m = m" for l w r m
    by (simp_all add: example_env_def)
  have p0: "ew_list (majorVersionSelect (openedImpl example_env (getPages example_env ! 0))) =
     Some (MetaVersionList ''net.minecraft.java'') \<and>
     loaded (openedImpl example_env (getPages example_env ! 0))"
    using o [rule_format, of 0] by (simp add: i w)
  have p1: "ew_list (majorVersionSelect (openedImpl example_env (getPages example_env ! 1))) =
     Some (MetaVersionList ''net.adoptium.java'')"
    using o [rule_format, of 1] by (simp add: i w)
  have p2: "openedImpl example_env (getPages example_env ! 2) = getPages example_env ! 2"
    using o [rule_format, of 2] by (simp add: i w)
  have l2: "\<not> loaded (getPages example_env ! 2)"
    by (simp add: getPages_def InstallLoaderPage_new_def)
  from ids names p0 p1 p2 l2 show ?thesis
    by simp
qed

subsection \<open>What the slots leave unchanged\<close>

lemma updatePage_frame:
  "okText (updatePage i f d) = okText d"
  "okEnabled (updatePage i f d) = okEnabled d"
  "windowModality (updatePage i f d) = windowModality d"
  "windowTitle (updatePage i f d) = windowTitle d"
  "closedWith (updatePage i f d) = closedWith d"
  "selectedPage (container (updatePage i f d)) = selectedPage (container d)"
  "length (pages (container (updatePage i f d))) = length (pages (container d))"
  by (simp_all add: updatePage_def)

lemma deliver_frame:
  "deliver E sig d = Inr d' \<Longrightarrow>
   okText d' = okText d \<and> windowModality d' = windowModality d \<and>
   windowTitle d' = windowTitle d \<and> closedWith d' = closedWith d \<and>
   selectedPage (container d') = selectedPage (container d) \<and>
   length (pages (container d')) = length (pages (container d))"
  by (cases sig)
    (auto simp: refresh_slot_def selectedVersionChanged_slot_def updatePage_frame
      split: sum.splits if_splits dest!: validate_result)

subsection \<open>The selected page of a constructed dialog\<close>

text \<open>
  The theorems on slots and on \<open>done\<close> assume that the container has a selected page. The
  constructor only returns if it has one, and no slot changes the selection, the number
  of pages or their ids.
\<close>

lemma InstallDialog_new_selected:
  assumes "InstallDialog_new E ident = Inr d"
  shows "\<exists>s. selectedPage (container d) = Some s \<and> s < length (pages (container d))"
  using assms
  by (auto simp: InstallDialog_new_def Let_def pageCast_Inr_iff updatePage_frame
      split: sum.splits dest!: validate_result)

lemma page_id_kept:
  "page_id (loadList E p) = page_id p"
  "page_id (setSelectedVersion E version p) = page_id p"
  "page_id (selectSearch E p) = page_id p"
  "page_id (openedImpl E p) = page_id p"
  by (simp_all add: page_id_def loadList_def setSelectedVersion_def selectSearch_def
      openedImpl_def initialize_def Let_def split: option.splits)

lemma updatePage_ids:
  assumes "\<And>p. page_id (f p) = page_id p"
  shows "map page_id (pages (container (updatePage i f d))) = map page_id (pages (container d))"
proof (rule nth_equalityI)
  show "length (map page_id (pages (container (updatePage i f d)))) =
        length (map page_id (pages (container d)))"
    by (simp add: updatePage_def)
next
  fix j
  assume "j < length (map page_id (pages (container (updatePage i f d))))"
  then have "j < length (pages (container d))"
    by (simp add: updatePage_def)
  then show "map page_id (pages (container (updatePage i f d))) ! j =
             map page_id (pages (container d)) ! j"
    using assms by (cases "j = i") (simp_all add: updatePage_def)
qed

lemma deliver_ids:
  "deliver E sig d = Inr d' \<Longrightarrow>
   map page_id (pages (container d')) = map page_id (pages (container d))"
  by (cases sig)
    (auto simp: refresh_slot_def selectedVersionChanged_slot_def updatePage_ids page_id_kept
      split: sum.splits if_splits dest!: validate_result)

subsection \<open>Window modality\<close>

text \<open>
  The constructor sets the window modality of the dialog to \<open>Qt::WindowModal\<close>, and no
  slot of the dialog changes it afterwards. Which windows a window-modal dialog keeps from
  receiving input while it is open is decided by Qt and the window system when the
  program runs: the model holds the dialog alone, neither its parent window nor the
  delivery of input, and says nothing about it.
\<close>

lemma InstallDialog_sets_WindowModal:
  "(InstallDialog_new E ident = Inr d0 \<longrightarrow> windowModality d0 = WindowModal) \<and>
   (deliver E sig d = Inr d' \<longrightarrow> windowModality d' = windowModality d)"
  using InstallDialog_new_window [of E ident d0] deliver_frame [of E sig d d'] by simp

subsection \<open>Selecting a major version\<close>

text \<open>
  C7. The signal \<open>selectedVersionChanged\<close> of the major version widget of a page runs
  \<open>setSelectedVersion\<close> on that page and touches no other page. If the version casts to
  \<open>Meta::Version\<close>, the java version widget of the page is initialized with a new
  \<open>Java::VersionList\<close> of that version and then \<open>selectCurrent()\<close> is called on it, the rest
  of the page staying as it was; if the cast fails, for the null pointer or a version of
  another class, the page is unchanged.
\<close>

theorem setSelectedVersion_initializes_java_versions:
  "(page < length (pages (container d)) \<longrightarrow>
      (\<exists>d'. deliver E (majorVersionSelect_selectedVersionChanged page version) d = Inr d' \<and>
         pages (container d') =
           (pages (container d))[page := setSelectedVersion E version (pages (container d) ! page)] \<and>
         d'\<lparr>container := container d\<rparr> = d)) \<and>
   (version = Some (MetaVersion mv) \<longrightarrow>
      setSelectedVersion E version p =
        p\<lparr>javaVersionSelect :=
            w_selectCurrent E (w_initialize E (JavaVersionList mv) (javaVersionSelect p))\<rparr>) \<and>
   (dynamic_pointer_cast_Version version = None \<longrightarrow> setSelectedVersion E version p = p) \<and>
   (version = None \<or> version = Some OtherVersion \<or> version = Some (JavaMetadata m) \<longrightarrow>
      dynamic_pointer_cast_Version version = None)"
  by (auto simp: setSelectedVersion_def deref_def updatePage_def)

theorem setSelectedVersion_initializes_java_versions_witness:
  "(1::nat) < length (pages (container example_dialog)) \<and>
   (\<exists>d'. deliver example_env
            (majorVersionSelect_selectedVersionChanged 1 (Some (MetaVersion ''17''))) example_dialog =
          Inr d' \<and>
      ew_list (javaVersionSelect (pages (container d') ! 1)) = Some (JavaVersionList ''17'') \<and>
      pages (container d') ! 0 = pages (container example_dialog) ! 0 \<and>
      pages (container d') ! 2 = pages (container example_dialog) ! 2) \<and>
   dynamic_pointer_cast_Version (Some (JavaMetadata example_meta) :: string BaseVersion option) = None \<and>
   (\<exists>d'. deliver example_env
            (majorVersionSelect_selectedVersionChanged 1 (Some (JavaMetadata example_meta)))
            example_dialog = Inr d' \<and>
      pages (container d') = pages (container example_dialog))"
proof -
  have l: "(1::nat) < length (pages (container example_dialog))"
    by (simp add: example_dialog_def example_selected_def)
  have c: "dynamic_pointer_cast_Version (Some (JavaMetadata example_meta) :: string BaseVersion option) =
      None"
    by simp
  note t = setSelectedVersion_initializes_java_versions [of 1 example_dialog example_env]
  have a: "\<exists>d'. deliver example_env
            (majorVersionSelect_selectedVersionChanged 1 (Some (MetaVersion ''17''))) example_dialog =
          Inr d' \<and>
      ew_list (javaVersionSelect (pages (container d') ! 1)) = Some (JavaVersionList ''17'') \<and>
      pages (container d') ! 0 = pages (container example_dialog) ! 0 \<and>
      pages (container d') ! 2 = pages (container example_dialog) ! 2"
    using t [of "Some (MetaVersion ''17'')" "''17''" "pages (container example_dialog) ! 1"] l
    by (auto simp: example_env_def)
  have b: "\<exists>d'. deliver example_env
            (majorVersionSelect_selectedVersionChanged 1 (Some (JavaMetadata example_meta)))
            example_dialog = Inr d' \<and>
      pages (container d') = pages (container example_dialog)"
    using t [of "Some (JavaMetadata example_meta)" _ "pages (container example_dialog) ! 1"] l c
    by auto
  from l a b c show ?thesis
    by (intro conjI)
qed

subsection \<open>Opening a page\<close>

lemma openedImpl_loaded: "loaded p \<Longrightarrow> openedImpl E p = p"
  by (simp add: openedImpl_def)

lemma openedImpl_found:
  "\<not> loaded p \<Longrightarrow> metadataIndex_get E (uid p) = Some versions \<Longrightarrow>
   openedImpl E p = (initialize E versions p)\<lparr>loaded := True\<rparr>"
  by (simp add: openedImpl_def)

lemma openedImpl_not_found:
  "\<not> loaded p \<Longrightarrow> metadataIndex_get E (uid p) = None \<Longrightarrow> openedImpl E p = p"
  by (simp add: openedImpl_def)

lemma openedImpl_calls_loaded: "loaded p \<Longrightarrow> openedImpl_calls Es p = p"
  by (induction Es) (simp_all add: openedImpl_loaded)

lemma openedImpl_calls_first_found:
  "\<not> loaded p \<Longrightarrow>
   openedImpl_calls Es p =
     (case find (\<lambda>E. metadataIndex_get E (uid p) \<noteq> None) Es of
        None \<Rightarrow> p
      | Some E \<Rightarrow> openedImpl E p)"
proof (induction Es)
  case Nil
  then show ?case
    by simp
next
  case (Cons E Es)
  show ?case
  proof (cases "metadataIndex_get E (uid p)")
    case None
    with Cons show ?thesis
      by (simp add: openedImpl_not_found)
  next
    case (Some versions)
    with Cons.prems have "loaded (openedImpl E p)"
      by (simp add: openedImpl_found)
    with Some show ?thesis
      by (simp add: openedImpl_calls_loaded)
  qed
qed

text \<open>
  C8. Once \<open>loaded\<close> is true, \<open>openedImpl\<close> returns the page as it is, and so does every
  sequence of further calls. On a page not yet loaded, a call whose lookup in the
  metadata index succeeds initializes the major version list and sets \<open>loaded\<close>; a call
  whose lookup returns null changes nothing, \<open>loaded\<close> stays false, and the next call
  looks up again. So a sequence of calls on a page not yet loaded amounts to the first
  call whose lookup succeeds, if there is one: the list is initialized at most once.
\<close>

theorem openedImpl_initializes_at_most_once:
  "(loaded p \<longrightarrow> openedImpl E p = p \<and> openedImpl_calls Es p = p) \<and>
   (\<not> loaded p \<and> metadataIndex_get E (uid p) = Some versions \<longrightarrow>
      openedImpl E p = (initialize E versions p)\<lparr>loaded := True\<rparr> \<and>
      loaded (openedImpl E p) \<and>
      openedImpl_calls Es (openedImpl E p) = openedImpl E p) \<and>
   (\<not> loaded p \<and> metadataIndex_get E (uid p) = None \<longrightarrow>
      openedImpl E p = p \<and> \<not> loaded (openedImpl E p) \<and>
      openedImpl_calls (E # Es) p = openedImpl_calls Es p) \<and>
   (\<not> loaded p \<longrightarrow>
      openedImpl_calls Es p =
        (case find (\<lambda>E'. metadataIndex_get E' (uid p) \<noteq> None) Es of
           None \<Rightarrow> p
         | Some E' \<Rightarrow> openedImpl E' p))"
proof -
  have "openedImpl_calls Es (openedImpl E p) = openedImpl E p"
    if "\<not> loaded p" "metadataIndex_get E (uid p) = Some versions"
    using that by (simp add: openedImpl_found openedImpl_calls_loaded)
  then show ?thesis
    by (simp add: openedImpl_loaded openedImpl_calls_loaded openedImpl_found
        openedImpl_not_found openedImpl_calls_first_found)
qed

theorem openedImpl_initializes_at_most_once_witness:
  "\<not> loaded (getPages example_env ! 2) \<and>
   metadataIndex_get example_env (uid (getPages example_env ! 2)) = None \<and>
   openedImpl example_env (getPages example_env ! 2) = getPages example_env ! 2 \<and>
   metadataIndex_get (example_env\<lparr>metadataIndex_get := Some\<rparr>) (uid (getPages example_env ! 2)) =
     Some ''com.azul.java'' \<and>
   loaded (openedImpl_calls [example_env, example_env\<lparr>metadataIndex_get := Some\<rparr>, example_env]
             (getPages example_env ! 2)) \<and>
   openedImpl_calls [example_env, example_env\<lparr>metadataIndex_get := Some\<rparr>, example_env]
       (getPages example_env ! 2) =
     openedImpl (example_env\<lparr>metadataIndex_get := Some\<rparr>) (getPages example_env ! 2) \<and>
   openedImpl example_env
       (openedImpl (example_env\<lparr>metadataIndex_get := Some\<rparr>) (getPages example_env ! 2)) =
     openedImpl (example_env\<lparr>metadataIndex_get := Some\<rparr>) (getPages example_env ! 2)"
proof -
  let ?p = "getPages example_env ! 2"
  let ?E2 = "example_env\<lparr>metadataIndex_get := Some\<rparr>"
  have nl: "\<not> loaded ?p"
    by (simp add: getPages_def InstallLoaderPage_new_def)
  have u: "uid ?p = ''com.azul.java''"
    by (simp add: getPages_def InstallLoaderPage_new_def)
  have i1: "metadataIndex_get example_env (uid ?p) = None"
    unfolding u by (simp add: example_env_def)
  have i2: "metadataIndex_get ?E2 (uid ?p) = Some ''com.azul.java''"
    by (simp add: u)
  note t = openedImpl_initializes_at_most_once
  have a: "openedImpl example_env ?p = ?p"
    using t [of ?p example_env] nl i1 by simp
  have b: "loaded (openedImpl ?E2 ?p)"
    using t [of ?p ?E2 _ "''com.azul.java''"] nl i2 by simp
  have c: "openedImpl_calls [example_env, ?E2, example_env] ?p = openedImpl ?E2 ?p"
    using t [of ?p ?E2 "[example_env, ?E2, example_env]" "''com.azul.java''"] nl i1 i2 by simp
  have d: "openedImpl example_env (openedImpl ?E2 ?p) = openedImpl ?E2 ?p"
    using t [of "openedImpl ?E2 ?p" example_env] b by simp
  from nl i1 i2 a b c d show ?thesis
    by simp
qed

subsection \<open>Which signals validate, and what Refresh reloads\<close>

lemma selectedVersionChanged_slot_other_page:
  assumes "distinct (map page_id (pages (container d)))"
    and "selectedPage (container d) = Some s" and "s < length (pages (container d))"
    and "page < length (pages (container d))" and "page \<noteq> s"
  shows "selectedVersionChanged_slot E page d = Inr d"
proof -
  from assms have "map page_id (pages (container d)) ! page \<noteq> map page_id (pages (container d)) ! s"
    by (simp add: nth_eq_iff_index_eq del: nth_map)
  with assms have "page_id (pages (container d) ! page) \<noteq> page_id (pages (container d) ! s)"
    by simp
  with assms show ?thesis
    by (simp add: selectedVersionChanged_slot_def deref_def)
qed

lemma selectedVersionChanged_slot_selected_page:
  "selectedPage (container d) = Some s \<Longrightarrow> s < length (pages (container d)) \<Longrightarrow>
   selectedVersionChanged_slot E s d = validate E (Some s) d"
  by (simp add: selectedVersionChanged_slot_def deref_def)

lemma deliver_okEnabled:
  "deliver E refreshButton_clicked d = Inr d' \<Longrightarrow> okEnabled d' = okEnabled d"
  "deliver E (majorVersionSelect_selectedVersionChanged page version) d = Inr d' \<Longrightarrow>
     okEnabled d' = okEnabled d"
  by (auto simp: refresh_slot_def updatePage_frame split: sum.splits)

lemma example_dialog_pages:
  "distinct (map page_id (pages (container (example_selected n))))"
  "length (pages (container (example_selected n))) = 3"
  "selectedPage (container (example_selected n)) = Some n"
  by (simp_all add: example_selected_def example_page_def page_id_def)

text \<open>
  C9. In a dialog whose pages have distinct ids, as those of \<open>getPages\<close> have, and whose
  container has a selected page: \<open>selectedVersionChanged\<close> of a page other than the selected
  one, whether the page's own signal or that of its java version widget, which the page
  forwards, returns the dialog unchanged, the enabled flag of the Ok button included.
  The signal of the selected page runs \<open>validate\<close> on the selected page, and
  \<open>selectedPageChanged\<close> of the container runs \<open>validate\<close> on the new current page. No other
  signal changes the enabled flag.
\<close>

theorem selectedVersionChanged_of_other_page_keeps_download_button:
  assumes "distinct (map page_id (pages (container d)))"
    and "selectedPage (container d) = Some s" and "s < length (pages (container d))"
  shows "(page < length (pages (container d)) \<and> page \<noteq> s \<longrightarrow>
            deliver E (page_selectedVersionChanged page version) d = Inr d \<and>
            deliver E (javaVersionSelect_selectedVersionChanged page version) d = Inr d) \<and>
         deliver E (page_selectedVersionChanged s version) d = validate E (Some s) d \<and>
         deliver E (javaVersionSelect_selectedVersionChanged s version) d = validate E (Some s) d \<and>
         deliver E (container_selectedPageChanged previous current) d = validate E current d \<and>
         (\<forall>sig d'. deliver E sig d = Inr d' \<and> okEnabled d' \<noteq> okEnabled d \<longrightarrow>
            (\<exists>v. sig = page_selectedVersionChanged s v) \<or>
            (\<exists>v. sig = javaVersionSelect_selectedVersionChanged s v) \<or>
            (\<exists>p c. sig = container_selectedPageChanged p c))"
proof -
  note other = selectedVersionChanged_slot_other_page [OF assms]
  have a: "deliver E (page_selectedVersionChanged page version) d = Inr d \<and>
        deliver E (javaVersionSelect_selectedVersionChanged page version) d = Inr d"
    if "page < length (pages (container d))" "page \<noteq> s"
    using other [OF that] by simp
  have b: "deliver E (page_selectedVersionChanged s version) d = validate E (Some s) d"
    "deliver E (javaVersionSelect_selectedVersionChanged s version) d = validate E (Some s) d"
    using assms by (simp_all add: selectedVersionChanged_slot_selected_page)
  have c: "deliver E (container_selectedPageChanged previous current) d = validate E current d"
    by simp
  have e: "(\<exists>v. sig = page_selectedVersionChanged s v) \<or>
            (\<exists>v. sig = javaVersionSelect_selectedVersionChanged s v) \<or>
            (\<exists>p c. sig = container_selectedPageChanged p c)"
    if run: "deliver E sig d = Inr d'" and changed: "okEnabled d' \<noteq> okEnabled d" for sig d'
  proof (cases sig)
    case refreshButton_clicked
    with run changed show ?thesis
      by (simp add: deliver_okEnabled)
  next
    case (majorVersionSelect_selectedVersionChanged p v)
    with run changed show ?thesis
      by (simp add: deliver_okEnabled)
  next
    case (javaVersionSelect_selectedVersionChanged p v)
    with run have slot: "selectedVersionChanged_slot E p d = Inr d'"
      by simp
    then have "p < length (pages (container d))"
      by (auto simp: selectedVersionChanged_slot_def deref_def split: if_splits)
    with slot changed other [of p E] have "p = s"
      by (cases "p = s") auto
    with javaVersionSelect_selectedVersionChanged show ?thesis
      by simp
  next
    case (page_selectedVersionChanged p v)
    with run have slot: "selectedVersionChanged_slot E p d = Inr d'"
      by simp
    then have "p < length (pages (container d))"
      by (auto simp: selectedVersionChanged_slot_def deref_def split: if_splits)
    with slot changed other [of p E] have "p = s"
      by (cases "p = s") auto
    with page_selectedVersionChanged show ?thesis
      by simp
  next
    case (container_selectedPageChanged p c)
    then show ?thesis
      by simp
  qed
  from a b c e show ?thesis
    by blast
qed

theorem selectedVersionChanged_of_other_page_keeps_download_button_witness:
  "distinct (map page_id (pages (container example_dialog))) \<and>
   selectedPage (container example_dialog) = Some 1 \<and>
   (1::nat) < length (pages (container example_dialog)) \<and>
   (2::nat) < length (pages (container example_dialog)) \<and> (2::nat) \<noteq> 1 \<and>
   selectedVersion example_env (pages (container example_dialog) ! 2) \<noteq> None \<and>
   \<not> okEnabled example_dialog \<and>
   deliver example_env (page_selectedVersionChanged 2 (Some (JavaMetadata example_meta)))
     example_dialog = Inr example_dialog \<and>
   deliver example_env (javaVersionSelect_selectedVersionChanged 2 (Some (JavaMetadata example_meta)))
     example_dialog = Inr example_dialog \<and>
   deliver example_env (page_selectedVersionChanged 1 None) example_dialog =
     validate example_env (Some 1) example_dialog \<and>
   (\<exists>d'. deliver example_env (container_selectedPageChanged (Some 1) (Some 2)) example_dialog =
            Inr d' \<and> okEnabled d')"
proof -
  have h: "distinct (map page_id (pages (container example_dialog)))"
    "selectedPage (container example_dialog) = Some 1"
    "(1::nat) < length (pages (container example_dialog))"
    "(2::nat) < length (pages (container example_dialog))"
    by (simp_all add: example_dialog_def example_dialog_pages)
  have v: "selectedVersion example_env (pages (container example_dialog) ! 2) \<noteq> None"
    by (simp add: example_dialog_def example_selected_version)
  have n: "\<not> okEnabled example_dialog"
    by (simp add: example_dialog_def example_selected_def)
  note t = selectedVersionChanged_of_other_page_keeps_download_button [OF h(1-3), of _ example_env]
  have a: "deliver example_env (page_selectedVersionChanged 2 (Some (JavaMetadata example_meta)))
     example_dialog = Inr example_dialog \<and>
   deliver example_env (javaVersionSelect_selectedVersionChanged 2 (Some (JavaMetadata example_meta)))
     example_dialog = Inr example_dialog"
    using t [of 2 "Some (JavaMetadata example_meta)"] h(4) by simp
  have b: "deliver example_env (page_selectedVersionChanged 1 None) example_dialog =
     validate example_env (Some 1) example_dialog"
    using t [of 2 None] by simp
  have c: "\<exists>d'. deliver example_env (container_selectedPageChanged (Some 1) (Some 2)) example_dialog =
            Inr d' \<and> okEnabled d'"
    using t [of 2 None "Some 1" "Some 2"] h(4) v by (simp add: validate_def pageCast_def)
  from h v n a b c show ?thesis
    by simp
qed

text \<open>
  C10. With a selected page, a click on Refresh returns a dialog in which the selected page
  has had \<open>loadList()\<close> called on its major version widget and on its java version widget,
  and is otherwise as before; every other page, the selection and the rest of the dialog
  are unchanged.
\<close>

theorem refresh_reloads_selected_page_only:
  assumes "selectedPage (container d) = Some s" and "s < length (pages (container d))"
  shows "\<exists>d'. deliver E refreshButton_clicked d = Inr d' \<and>
           pages (container d') ! s =
             (pages (container d) ! s)
               \<lparr> majorVersionSelect := w_loadList E (majorVersionSelect (pages (container d) ! s)),
                 javaVersionSelect := w_loadList E (javaVersionSelect (pages (container d) ! s)) \<rparr> \<and>
           (\<forall>j. j \<noteq> s \<longrightarrow> pages (container d') ! j = pages (container d) ! j) \<and>
           length (pages (container d')) = length (pages (container d)) \<and>
           selectedPage (container d') = selectedPage (container d) \<and>
           d'\<lparr>container := container d\<rparr> = d"
  using assms by (simp add: refresh_slot_def pageCast_def updatePage_def loadList_def)

theorem refresh_reloads_selected_page_only_witness:
  "selectedPage (container example_dialog) = Some 1 \<and>
   (1::nat) < length (pages (container example_dialog)) \<and>
   (\<exists>d'. deliver example_env refreshButton_clicked example_dialog = Inr d' \<and>
      ew_reloads (majorVersionSelect (pages (container d') ! 1)) = 1 \<and>
      ew_reloads (javaVersionSelect (pages (container d') ! 1)) = 1 \<and>
      pages (container d') ! 0 = pages (container example_dialog) ! 0 \<and>
      pages (container d') ! 2 = pages (container example_dialog) ! 2 \<and>
      ew_reloads (majorVersionSelect (pages (container example_dialog) ! 1)) = 0 \<and>
      ew_reloads (javaVersionSelect (pages (container example_dialog) ! 1)) = 0)"
proof -
  have h: "selectedPage (container example_dialog) = Some 1"
    "(1::nat) < length (pages (container example_dialog))"
    by (simp_all add: example_dialog_def example_dialog_pages)
  have r: "ew_reloads (majorVersionSelect (pages (container example_dialog) ! 1)) = 0"
    "ew_reloads (javaVersionSelect (pages (container example_dialog) ! 1)) = 0"
    by (simp_all add: example_dialog_def example_selected_def example_page_def)
  have w: "w_loadList example_env x = x\<lparr>ew_reloads := Suc (ew_reloads x)\<rparr>" for x
    by (simp add: example_env_def)
  from refresh_reloads_selected_page_only [OF h, of example_env] obtain d' where
    d': "deliver example_env refreshButton_clicked example_dialog = Inr d'"
    and s: "pages (container d') ! 1 =
             (pages (container example_dialog) ! 1)
               \<lparr> majorVersionSelect :=
                   w_loadList example_env (majorVersionSelect (pages (container example_dialog) ! 1)),
                 javaVersionSelect :=
                   w_loadList example_env (javaVersionSelect (pages (container example_dialog) ! 1)) \<rparr>"
    and o: "\<forall>j. j \<noteq> 1 \<longrightarrow> pages (container d') ! j = pages (container example_dialog) ! j"
    by blast
  from o have "pages (container d') ! 0 = pages (container example_dialog) ! 0"
    "pages (container d') ! 2 = pages (container example_dialog) ! 2"
    by simp_all
  with h r d' s show ?thesis
    by (simp add: w)
qed

end
